theory Spec2Isabelle
  imports Main
begin

section \<open>The admin endpoint /adapt of caddy-admin-adapt (adapt.go)\<close>

text \<open>
  The module has one request handler, \<open>handleAdapt\<close>, and one dispatcher,
  \<open>adaptByContentType\<close>. Both are embedded below as HOL functions. What they call
  outside the module is either modelled (the string functions, the UTF-8 decoder, the
  buffer and the media type parser of Go's standard library) or taken as an argument
  (the adapter registry of caddyconfig, the JSON encoder, the case table of Unicode).
\<close>

subsection \<open>Go values\<close>

text \<open>
  A Go string is a sequence of bytes: \<open>string\<close>, a \<open>char list\<close>. A Go slice is either
  \<open>nil\<close> or holds elements: \<open>None\<close> is the nil slice; \<open>len\<close> of the nil slice is 0.
\<close>

type_synonym 'a slice = "'a list option"

definition len :: "'a slice \<Rightarrow> nat" where
  "len xs = (case xs of None \<Rightarrow> 0 | Some l \<Rightarrow> length l)"

text \<open>
  Errors. \<open>Errorf msg\<close> is an error that holds only its message, as \<open>fmt.Errorf\<close> and
  \<open>errors.New\<close> build it; \<open>APIError status err\<close> is \<open>caddy.APIError{HTTPStatus: status,
  Err: err}\<close>. A nil error is \<open>None\<close> of \<open>error option\<close>. \<open>Error\<close> is the method
  \<open>Error()\<close>: an APIError that wraps an error answers with the wrapped error's message.
\<close>

datatype error = Errorf string | APIError int error

fun Error :: "error \<Rightarrow> string" where
  "Error (Errorf msg) = msg"
| "Error (APIError status err) = Error err"

text \<open>The HTTP status attached to an error, if it has one.\<close>

fun HTTPStatus :: "error \<Rightarrow> int option" where
  "HTTPStatus (Errorf msg) = None"
| "HTTPStatus (APIError status err) = Some status"

text \<open>\<open>caddyconfig.Warning\<close>.\<close>

record Warning =
  File :: string
  Line :: int
  Directive :: string
  Message :: string

subsection \<open>Package unicode/utf8\<close>

text \<open>
  A rune is a code point, a natural number here; \<open>byte c\<close> is the value of a byte.
  \<open>DecodeRuneInString\<close> follows the decoder of the standard library: the first byte
  gives the size of the encoding and the range of the second byte, the other bytes are
  continuation bytes, and whatever is not the shortest encoding of a code point that is
  not a surrogate decodes to \<open>RuneError\<close> with width 1.
\<close>

type_synonym rune = nat

definition byte :: "char \<Rightarrow> nat" where
  "byte c = of_char c"

definition RuneError :: rune where
  "RuneError = 0xFFFD"

definition RuneSelf :: nat where
  "RuneSelf = 0x80"

definition UTFMax :: int where
  "UTFMax = 4"

definition DecodeRuneInString :: "string \<Rightarrow> rune \<times> nat" where
  "DecodeRuneInString s =
     (case s of
        [] \<Rightarrow> (RuneError, 0)
      | c0 # t \<Rightarrow>
          let s0 = byte c0 in
          if s0 < RuneSelf then (s0, 1)
          else if s0 < 0xC2 \<or> 0xF4 < s0 then (RuneError, 1)
          else
            let sz = (if s0 < 0xE0 then 2 else if s0 < 0xF0 then 3 else 4) :: nat;
                lo = (if s0 = 0xE0 then 0xA0 else if s0 = 0xF0 then 0x90 else 0x80) :: nat;
                hi = (if s0 = 0xED then 0x9F else if s0 = 0xF4 then 0x8F else 0xBF) :: nat
            in
            if length s < sz then (RuneError, 1)
            else
              let s1 = byte (s ! 1) in
              if s1 < lo \<or> hi < s1 then (RuneError, 1)
              else if sz \<le> 2 then ((s0 mod 0x20) * 0x40 + s1 mod 0x40, 2)
              else
                let s2 = byte (s ! 2) in
                if s2 < 0x80 \<or> 0xBF < s2 then (RuneError, 1)
                else if sz \<le> 3 then
                  ((s0 mod 0x10) * 0x1000 + (s1 mod 0x40) * 0x40 + s2 mod 0x40, 3)
                else
                  let s3 = byte (s ! 3) in
                  if s3 < 0x80 \<or> 0xBF < s3 then (RuneError, 1)
                  else ((s0 mod 8) * 0x40000 + (s1 mod 0x40) * 0x1000 + (s2 mod 0x40) * 0x40
                          + s3 mod 0x40, 4))"

text \<open>\<open>utf8.RuneStart\<close>: the byte is not a continuation byte.\<close>

definition RuneStart :: "char \<Rightarrow> bool" where
  "RuneStart b = (\<not> (0x80 \<le> byte b \<and> byte b < 0xC0))"

text \<open>
  \<open>DecodeLastRuneInString\<close>: from the last byte back to the nearest byte that starts a
  rune, at most \<open>UTFMax\<close> bytes from the end (\<open>scanBack\<close> is that loop); the rune decoded
  from there must end where the string ends.
\<close>

function scanBack :: "string \<Rightarrow> int \<Rightarrow> int \<Rightarrow> int" where
  "scanBack s start lim =
     (if start \<ge> lim then
        (if RuneStart (s ! nat start) then start else scanBack s (start - 1) lim)
      else start)"
  by pat_completeness auto
termination
  by (relation "measure (\<lambda>(s, start, lim). nat (start - lim + 1))") auto

declare scanBack.simps [simp del]

definition DecodeLastRuneInString :: "string \<Rightarrow> rune \<times> nat" where
  "DecodeLastRuneInString s =
     (let n = int (length s) in
      if n = 0 then (RuneError, 0)
      else
        let start = n - 1;
            r = byte (s ! nat start)
        in
        if r < RuneSelf then (r, 1)
        else
          let lim = (if n - UTFMax < 0 then 0 else n - UTFMax);
              start = scanBack s (start - 1) lim;
              start = (if start < 0 then 0 else start);
              (r, size) = DecodeRuneInString (drop (nat start) s)
          in
          if start + int size \<noteq> n then (RuneError, 1) else (r, size))"

text \<open>
  \<open>EncodeRune\<close> is what \<open>WriteRune\<close> appends: a code point beyond \<open>0x10FFFF\<close> or a
  surrogate is written as \<open>RuneError\<close>.
\<close>

definition EncodeRune :: "rune \<Rightarrow> string" where
  "EncodeRune r =
     (if r \<le> 0x7F then [char_of r]
      else if r \<le> 0x7FF then [char_of (0xC0 + r div 0x40), char_of (0x80 + r mod 0x40)]
      else
        let r = (if r > 0x10FFFF \<or> (0xD800 \<le> r \<and> r \<le> 0xDFFF) then RuneError else r) in
        if r \<le> 0xFFFF then
          [char_of (0xE0 + r div 0x1000), char_of (0x80 + (r div 0x40) mod 0x40),
           char_of (0x80 + r mod 0x40)]
        else
          [char_of (0xF0 + r div 0x40000), char_of (0x80 + (r div 0x1000) mod 0x40),
           char_of (0x80 + (r div 0x40) mod 0x40), char_of (0x80 + r mod 0x40)])"

lemma DecodeRuneInString_size:
  "s \<noteq> [] \<Longrightarrow> 1 \<le> snd (DecodeRuneInString s)"
  by (cases s) (simp_all add: DecodeRuneInString_def Let_def)

lemma scanBack_le: "scanBack s start lim \<le> start"
  by (induction s start lim rule: scanBack.induct) (subst scanBack.simps, auto)

lemma DecodeLastRuneInString_size:
  assumes "s \<noteq> []"
  shows "1 \<le> snd (DecodeLastRuneInString s)"
proof (cases "byte (s ! nat (int (length s) - 1)) < RuneSelf")
  case True
  then show ?thesis
    using assms by (simp add: DecodeLastRuneInString_def Let_def)
next
  case False
  define lim where "lim = (if int (length s) - UTFMax < 0 then 0 else int (length s) - UTFMax)"
  define st0 where "st0 = scanBack s (int (length s) - 1 - 1) lim"
  define st where "st = (if st0 < 0 then 0 else st0)"
  obtain r size where d: "DecodeRuneInString (drop (nat st) s) = (r, size)"
    by (cases "DecodeRuneInString (drop (nat st) s)")
  have "st0 \<le> int (length s) - 2"
    using scanBack_le[of s "int (length s) - 1 - 1" lim] by (simp add: st0_def)
  moreover have "0 < int (length s)"
    using assms by simp
  ultimately have lt: "st < int (length s)"
    by (simp add: st_def)
  have "DecodeLastRuneInString s
      = (let (r, size) = DecodeRuneInString (drop (nat st) s)
         in if st + int size \<noteq> int (length s) then (RuneError, 1) else (r, size))"
    unfolding DecodeLastRuneInString_def Let_def st_def st0_def lim_def
    using False assms by simp
  then have "DecodeLastRuneInString s
      = (if st + int size \<noteq> int (length s) then (RuneError, 1) else (r, size))"
    using d by simp
  then show ?thesis
    using lt by (cases "st + int size = int (length s)") auto
qed

subsection \<open>Package unicode\<close>

text \<open>
  \<open>unicode.IsSpace\<close>: the white space of Latin-1, and above it the code points of the
  property White_Space. \<open>unicode.ToLower\<close> maps the letters of ASCII itself and looks
  every other rune up in the case table of the Unicode version of the Go release,
  \<open>unicode.To(unicode.LowerCase, r)\<close>. That table is not part of the model: it is the
  argument \<open>lc\<close> of \<open>ToLower\<close> and of every function that calls it, and what is proved
  holds for every table.
\<close>

definition IsSpace :: "rune \<Rightarrow> bool" where
  "IsSpace r =
     (if r \<le> 0xFF then (9 \<le> r \<and> r \<le> 13) \<or> r = 0x20 \<or> r = 0x85 \<or> r = 0xA0
      else r = 0x1680 \<or> (0x2000 \<le> r \<and> r \<le> 0x200A) \<or> r = 0x2028 \<or> r = 0x2029
           \<or> r = 0x202F \<or> r = 0x205F \<or> r = 0x3000)"

definition unicode_ToLower :: "(rune \<Rightarrow> rune) \<Rightarrow> rune \<Rightarrow> rune" where
  "unicode_ToLower lc r =
     (if r \<le> 0x7F then (if 65 \<le> r \<and> r \<le> 90 then r + 32 else r) else lc r)"

subsection \<open>Package strings\<close>

definition HasPrefix :: "string \<Rightarrow> string \<Rightarrow> bool" where
  "HasPrefix s p = (length p \<le> length s \<and> take (length p) s = p)"

definition HasSuffix :: "string \<Rightarrow> string \<Rightarrow> bool" where
  "HasSuffix s suffix = (length suffix \<le> length s \<and> drop (length s - length suffix) s = suffix)"

text \<open>\<open>strings.Index\<close>: the index of the first instance of \<open>substr\<close> in \<open>s\<close>, or -1.\<close>

fun Index :: "string \<Rightarrow> string \<Rightarrow> int" where
  "Index [] substr = (if substr = [] then 0 else -1)"
| "Index (c # s) substr =
     (if HasPrefix (c # s) substr then 0
      else (let i = Index s substr in if i < 0 then -1 else i + 1))"

text \<open>\<open>strings.Cut\<close>: \<open>s\<close> around the first instance of \<open>sep\<close>.\<close>

definition Cut :: "string \<Rightarrow> string \<Rightarrow> string \<times> string \<times> bool" where
  "Cut s sep =
     (let i = Index s sep in
      if i \<ge> 0 then (take (nat i) s, drop (nat i + length sep) s, True)
      else (s, [], False))"

text \<open>
  \<open>indexFunc s f truth\<close>: the index of the first rune \<open>r\<close> of \<open>s\<close> with \<open>f r = truth\<close>, or
  -1; the runes are those of a \<open>range\<close> loop, one \<open>RuneError\<close> for each byte that starts
  no encoding. \<open>indexFrom\<close> is the loop, at index \<open>i\<close> with \<open>s\<close> left to read.
  \<open>lastIndexFunc\<close> is the same from the end.
\<close>

function indexFrom :: "string \<Rightarrow> (rune \<Rightarrow> bool) \<Rightarrow> bool \<Rightarrow> int \<Rightarrow> int" where
  "indexFrom s f truth i =
     (if s = [] then -1
      else
        let (r, size) = DecodeRuneInString s in
        if f r = truth then i else indexFrom (drop size s) f truth (i + int size))"
  by pat_completeness auto
termination
proof (relation "measure (\<lambda>(s, f, truth, i). length s)", goal_cases)
  case 1
  show ?case by simp
next
  case (2 s f truth i x r size)
  then have "snd (DecodeRuneInString s) = size"
    by (metis snd_conv)
  then show ?case
    using 2 DecodeRuneInString_size[of s] by (cases s) auto
qed

declare indexFrom.simps [simp del]

definition indexFunc :: "string \<Rightarrow> (rune \<Rightarrow> bool) \<Rightarrow> bool \<Rightarrow> int" where
  "indexFunc s f truth = indexFrom s f truth 0"

function lastIndexFunc :: "string \<Rightarrow> (rune \<Rightarrow> bool) \<Rightarrow> bool \<Rightarrow> int" where
  "lastIndexFunc s f truth =
     (if s = [] then -1
      else
        let (r, size) = DecodeLastRuneInString s;
            i = length s - size
        in
        if f r = truth then int i else lastIndexFunc (take i s) f truth)"
  by pat_completeness auto
termination
proof (relation "measure (\<lambda>(s, f, truth). length s)", goal_cases)
  case 1
  show ?case by simp
next
  case (2 s f truth x r size i)
  then have "snd (DecodeLastRuneInString s) = size"
    by (metis snd_conv)
  then show ?case
    using 2 DecodeLastRuneInString_size[of s] by (cases s) auto
qed

declare lastIndexFunc.simps [simp del]

definition IndexFunc :: "string \<Rightarrow> (rune \<Rightarrow> bool) \<Rightarrow> int" where
  "IndexFunc s f = indexFunc s f True"

definition TrimLeftFunc :: "string \<Rightarrow> (rune \<Rightarrow> bool) \<Rightarrow> string" where
  "TrimLeftFunc s f =
     (let i = indexFunc s f False in if i = -1 then [] else drop (nat i) s)"

definition TrimRightFunc :: "string \<Rightarrow> (rune \<Rightarrow> bool) \<Rightarrow> string" where
  "TrimRightFunc s f =
     (let i = lastIndexFunc s f False;
          i = (if i \<ge> 0 \<and> byte (s ! nat i) \<ge> RuneSelf
               then i + int (snd (DecodeRuneInString (drop (nat i) s)))
               else i + 1)
      in take (nat i) s)"

definition TrimFunc :: "string \<Rightarrow> (rune \<Rightarrow> bool) \<Rightarrow> string" where
  "TrimFunc s f = TrimRightFunc (TrimLeftFunc s f) f"

text \<open>
  \<open>strings.TrimSpace\<close>. \<open>trimStart\<close> is its first loop, over the white space of ASCII at
  the start: it ends in \<open>Inl\<close> with the result of \<open>TrimFunc\<close> on the rest when it meets a
  byte from \<open>RuneSelf\<close> on, and in \<open>Inr\<close> with the rest otherwise. \<open>trimStop\<close> is the
  second loop, from the end of that rest.
\<close>

definition asciiSpace :: "char \<Rightarrow> bool" where
  "asciiSpace c = ((9 \<le> byte c \<and> byte c \<le> 13) \<or> byte c = 0x20)"

fun trimStart :: "string \<Rightarrow> string + string" where
  "trimStart [] = Inr []"
| "trimStart (c # s) =
     (if byte c \<ge> RuneSelf then Inl (TrimFunc (c # s) IsSpace)
      else if asciiSpace c then trimStart s
      else Inr (c # s))"

function trimStop :: "string \<Rightarrow> string" where
  "trimStop s =
     (if s = [] then []
      else
        let c = last s in
        if byte c \<ge> RuneSelf then TrimRightFunc s IsSpace
        else if asciiSpace c then trimStop (butlast s)
        else s)"
  by pat_completeness auto
termination
  by (relation "measure length") (auto simp: less_Suc_eq_le[symmetric] intro: diff_less)

declare trimStop.simps [simp del]

definition TrimSpace :: "string \<Rightarrow> string" where
  "TrimSpace s = (case trimStart s of Inl t \<Rightarrow> t | Inr t \<Rightarrow> trimStop t)"

text \<open>
  \<open>strings.Map\<close>: every rune of \<open>s\<close> is replaced by its image, written in UTF-8; a byte
  that starts no encoding counts as \<open>RuneError\<close>. \<open>strings.ToLower\<close> works on the bytes
  when all of them are below \<open>RuneSelf\<close>, and maps \<open>unicode.ToLower\<close> otherwise.
\<close>

function strings_Map :: "(rune \<Rightarrow> rune) \<Rightarrow> string \<Rightarrow> string" where
  "strings_Map mapping s =
     (if s = [] then []
      else
        let (c, size) = DecodeRuneInString s in
        EncodeRune (mapping c) @ strings_Map mapping (drop size s))"
  by pat_completeness auto
termination
proof (relation "measure (\<lambda>(mapping, s). length s)", goal_cases)
  case 1
  show ?case by simp
next
  case (2 mapping s x c size)
  then have "snd (DecodeRuneInString s) = size"
    by (metis snd_conv)
  then show ?case
    using 2 DecodeRuneInString_size[of s] by (cases s) auto
qed

declare strings_Map.simps [simp del]

definition lowerByte :: "char \<Rightarrow> char" where
  "lowerByte c = (if 65 \<le> byte c \<and> byte c \<le> 90 then char_of (byte c + 32) else c)"

definition ToLower :: "(rune \<Rightarrow> rune) \<Rightarrow> string \<Rightarrow> string" where
  "ToLower lc s =
     (if list_all (\<lambda>c. byte c < RuneSelf) s then map lowerByte s
      else strings_Map (unicode_ToLower lc) s)"

subsection \<open>mime.ParseMediaType\<close>

text \<open>
  Package \<open>mime\<close> of the standard library (mediatype.go), of which the module uses
  \<open>ParseMediaType\<close>, keeping the media type and the error and dropping the parameters.
  The model returns these two: the parameters are parsed, since a parameter list that
  does not parse is an error, and their decoded values are not built.
\<close>

definition isTSpecial :: "rune \<Rightarrow> bool" where
  "isTSpecial r = (r \<in> set (map byte (''()<>@,;:'' @ [CHR 0x5C, CHR 0x22] @ ''/[]?='')))"

definition isTokenChar :: "rune \<Rightarrow> bool" where
  "isTokenChar r = (r > 0x20 \<and> r < 0x7f \<and> \<not> isTSpecial r)"

definition isNotTokenChar :: "rune \<Rightarrow> bool" where
  "isNotTokenChar r = (\<not> isTokenChar r)"

definition consumeToken :: "string \<Rightarrow> string \<times> string" where
  "consumeToken v =
     (let notPos = IndexFunc v isNotTokenChar in
      if notPos = -1 then (v, [])
      else if notPos = 0 then ([], v)
      else (take (nat notPos) v, drop (nat notPos) v))"

text \<open>
  The loop of \<open>consumeValue\<close> over a quoted string, from index 1: \<open>quoted v buffer s\<close>
  reads the rest \<open>s\<close> of \<open>v\<close> with \<open>buffer\<close> built so far. A backslash before a tspecial
  stands for that byte; a line break, or no closing quote, gives \<open>("", v)\<close>.
\<close>

fun quoted :: "string \<Rightarrow> string \<Rightarrow> string \<Rightarrow> string \<times> string" where
  "quoted v buffer [] = ([], v)"
| "quoted v buffer [r] =
     (if r = CHR 0x22 then (buffer, [])
      else if r = CHR 0x0D \<or> r = CHR 0x0A then ([], v)
      else quoted v (buffer @ [r]) [])"
| "quoted v buffer (r # r' # s) =
     (if r = CHR 0x22 then (buffer, r' # s)
      else if r = CHR 0x5C \<and> isTSpecial (byte r') then quoted v (buffer @ [r']) s
      else if r = CHR 0x0D \<or> r = CHR 0x0A then ([], v)
      else quoted v (buffer @ [r]) (r' # s))"

definition consumeValue :: "string \<Rightarrow> string \<times> string" where
  "consumeValue v =
     (case v of [] \<Rightarrow> ([], [])
      | c # s \<Rightarrow> if c \<noteq> CHR 0x22 then consumeToken v else quoted v [] s)"

definition consumeMediaParam :: "(rune \<Rightarrow> rune) \<Rightarrow> string \<Rightarrow> string \<times> string \<times> string" where
  "consumeMediaParam lc v =
     (let rest = TrimLeftFunc v IsSpace in
      if \<not> HasPrefix rest '';'' then ([], [], v)
      else
        let rest = drop 1 rest;
            rest = TrimLeftFunc rest IsSpace;
            (param, rest) = consumeToken rest;
            param = ToLower lc param
        in
        if param = [] then ([], [], v)
        else
          let rest = TrimLeftFunc rest IsSpace in
          if \<not> HasPrefix rest ''='' then ([], [], v)
          else
            let rest = drop 1 rest;
                rest = TrimLeftFunc rest IsSpace;
                (val, rest2) = consumeValue rest
            in
            if val = [] \<and> rest2 = rest then ([], [], v)
            else (param, val, rest2))"

definition checkMediaTypeDisposition :: "string \<Rightarrow> error option" where
  "checkMediaTypeDisposition s =
     (let (typ, rest) = consumeToken s in
      if typ = [] then Some (Errorf ''mime: no media type'')
      else if rest = [] then None
      else if \<not> HasPrefix rest ''/'' then Some (Errorf ''mime: expected slash after first token'')
      else
        let (subtype, rest) = consumeToken (drop 1 rest) in
        if subtype = [] then Some (Errorf ''mime: expected token after slash'')
        else if rest \<noteq> [] then Some (Errorf ''mime: unexpected content after media subtype'')
        else None)"

definition ErrInvalidMediaParameter :: error where
  "ErrInvalidMediaParameter = Errorf ''mime: invalid media parameter''"

text \<open>
  The loop of \<open>ParseMediaType\<close> over the parameters that follow the media type.
  \<open>params\<close> holds the parameters read so far, \<open>continuation\<close> those with a \<open>*\<close> in
  their name, by base name (a nil map reads as an empty one). A parameter that comes
  twice is an error unless both values are equal, as in the current releases of Go.
  Each round consumes at least the semicolon of a parameter, which is why the loop ends.
\<close>

lemma consumeToken_length: "consumeToken v = (t, r) \<Longrightarrow> length r \<le> length v"
  by (auto simp: consumeToken_def Let_def split: if_splits)

lemma TrimLeftFunc_length: "length (TrimLeftFunc s f) \<le> length s"
  by (simp add: TrimLeftFunc_def Let_def)

lemma quoted_length:
  "quoted v b s = (x, r) \<Longrightarrow> length s \<le> length v \<Longrightarrow> length r \<le> length v"
  by (induction v b s rule: quoted.induct) (auto split: if_splits)

lemma consumeValue_length: "consumeValue v = (x, r) \<Longrightarrow> length r \<le> length v"
  by (auto simp: consumeValue_def split: list.splits if_splits
      dest: consumeToken_length quoted_length)

lemma consumeMediaParam_length:
  assumes "consumeMediaParam lc v = (key, val, rest)" and "key \<noteq> []"
  shows "length rest < length v"
proof -
  define r0 where "r0 = TrimLeftFunc v IsSpace"
  define r1 where "r1 = TrimLeftFunc (drop 1 r0) IsSpace"
  obtain param r2 where tok: "consumeToken r1 = (param, r2)"
    by (cases "consumeToken r1")
  define r3 where "r3 = TrimLeftFunc r2 IsSpace"
  define r4 where "r4 = TrimLeftFunc (drop 1 r3) IsSpace"
  obtain x r5 where cv: "consumeValue r4 = (x, r5)"
    by (cases "consumeValue r4")
  have semi: "HasPrefix r0 '';''" and rest: "rest = r5"
    using assms tok cv
    by (auto simp: consumeMediaParam_def Let_def r0_def r1_def r3_def r4_def split: if_splits)
  have "length r5 \<le> length r4"
    using cv by (rule consumeValue_length)
  also have "\<dots> \<le> length r3"
    unfolding r4_def using TrimLeftFunc_length[of "drop 1 r3" IsSpace] by simp
  also have "\<dots> \<le> length r2"
    unfolding r3_def by (rule TrimLeftFunc_length)
  also have "\<dots> \<le> length r1"
    using tok by (rule consumeToken_length)
  also have "\<dots> \<le> length (drop 1 r0)"
    unfolding r1_def by (rule TrimLeftFunc_length)
  also have "\<dots> < length r0"
    using semi by (cases r0) (auto simp: HasPrefix_def)
  also have "\<dots> \<le> length v"
    unfolding r0_def by (rule TrimLeftFunc_length)
  finally show ?thesis using rest by simp
qed

function parseParams ::
  "(rune \<Rightarrow> rune) \<Rightarrow> string \<Rightarrow> (string \<rightharpoonup> string) \<Rightarrow> (string \<rightharpoonup> (string \<rightharpoonup> string))
     \<Rightarrow> string \<Rightarrow> string \<times> error option" where
  "parseParams lc mediatype params continuation v =
     (if length v > 0 then
        (let v = TrimLeftFunc v IsSpace in
         if length v = 0 then (mediatype, None)
         else
           let (key, val, rest) = consumeMediaParam lc v in
           if key = [] then
             (if TrimSpace rest = '';'' then (mediatype, None)
              else (mediatype, Some ErrInvalidMediaParameter))
           else
             let (baseName, _, ok) = Cut key ''*'' in
             if ok then
               (let pmap = (case continuation baseName of Some m \<Rightarrow> m | None \<Rightarrow> Map.empty) in
                if (case pmap key of Some v \<Rightarrow> v \<noteq> val | None \<Rightarrow> False)
                then ([], Some (Errorf ''mime: duplicate parameter name''))
                else parseParams lc mediatype params
                       (continuation(baseName \<mapsto> pmap(key \<mapsto> val))) rest)
             else
               (if (case params key of Some v \<Rightarrow> v \<noteq> val | None \<Rightarrow> False)
                then ([], Some (Errorf ''mime: duplicate parameter name''))
                else parseParams lc mediatype (params(key \<mapsto> val)) continuation rest))
      else (mediatype, None))"
  by pat_completeness auto
termination
proof (relation "measure (\<lambda>(lc, m, p, c, v). length v)", goal_cases)
  case 1
  show ?case by simp
next
  case (2 lc mediatype params continuation v v' kvr key vr val rest)
  then have "length rest < length v'"
    using consumeMediaParam_length[of lc v' key val rest] by simp
  then show ?case using 2 TrimLeftFunc_length[of v IsSpace] by simp
next
  case (3 lc mediatype params continuation v v' kvr key vr val rest)
  then have "length rest < length v'"
    using consumeMediaParam_length[of lc v' key val rest] by simp
  then show ?case using 3 TrimLeftFunc_length[of v IsSpace] by simp
qed

declare parseParams.simps [simp del]

text \<open>
  \<open>ParseMediaType lc v\<close>: the media type is the text before the first semicolon,
  lowercased and trimmed; it must be a token, or two tokens around one slash. The
  result is the media type and the error (\<open>None\<close> for nil).
\<close>

definition ParseMediaType :: "(rune \<Rightarrow> rune) \<Rightarrow> string \<Rightarrow> string \<times> error option" where
  "ParseMediaType lc v =
     (let (base, _, _) = Cut v '';'';
          mediatype = TrimSpace (ToLower lc base)
      in
      case checkMediaTypeDisposition mediatype of
        Some err \<Rightarrow> ([], Some err)
      | None \<Rightarrow> parseParams lc mediatype Map.empty Map.empty (drop (length base) v))"

subsection \<open>The dispatcher: adaptByContentType\<close>

text \<open>
  A config adapter (\<open>caddyconfig.Adapter\<close>) is code outside the module: its method
  \<open>Adapt(body, options)\<close> returns a result, warnings and an error, any of which may be
  nil, and may have effects of its own. It is a function on a state \<open>'s\<close> that stands
  for whatever adapters read and write; the options are a map that may be nil.
\<close>

type_synonym 's Adapter =
  "char slice \<Rightarrow> (string \<rightharpoonup> string) option \<Rightarrow> 's
     \<Rightarrow> (char slice \<times> Warning slice \<times> error option) \<times> 's"

definition StatusBadRequest :: int where
  "StatusBadRequest = 400"

definition StatusMethodNotAllowed :: int where
  "StatusMethodNotAllowed = 405"

definition MethodPost :: string where
  "MethodPost = ''POST''"

text \<open>
  \<open>adaptByContentType\<close> (adapt.go, lines 95 to 132). Its first two arguments are what it
  calls outside the module: \<open>parse\<close> is \<open>mime.ParseMediaType\<close> (media type and error),
  \<open>registry\<close> is \<open>caddyconfig.GetAdapter\<close> (\<open>None\<close> for an adapter that is not
  registered). The result is Go's triple of output, warnings and error, with the state
  the adapters are left in. The slice \<open>ct[slashIdx+1:]\<close> is in range, since \<open>slashIdx\<close>
  is an index into \<open>ct\<close>.
\<close>

definition adaptByContentType ::
  "(string \<Rightarrow> string \<times> error option) \<Rightarrow> (string \<Rightarrow> 's Adapter option) \<Rightarrow> string
     \<Rightarrow> char slice \<Rightarrow> 's \<Rightarrow> (char slice \<times> Warning slice \<times> error option) \<times> 's" where
  "adaptByContentType parse registry contentType body s =
     (if contentType = [] then ((body, None, None), s)
      else
        let (ct, err) = parse contentType in
        (case err of
           Some err \<Rightarrow>
             ((None, None,
               Some (APIError StatusBadRequest (Errorf (''invalid Content-Type: '' @ Error err)))), s)
         | None \<Rightarrow>
             if HasSuffix ct ''/json'' then ((body, None, None), s)
             else
               let slashIdx = Index ct ''/'' in
               if slashIdx < 0 then ((None, None, Some (Errorf ''malformed Content-Type'')), s)
               else
                 let adapterName = drop (nat (slashIdx + 1)) ct in
                 (case registry adapterName of
                    None \<Rightarrow>
                      ((None, None,
                        Some (Errorf (''unrecognized config adapter '' @ [CHR 0x27] @ adapterName
                                      @ [CHR 0x27]))), s)
                  | Some cfgAdapter \<Rightarrow>
                      let ((result, warnings, err), s') = cfgAdapter body None s in
                      (case err of
                         Some err \<Rightarrow>
                           ((None, None,
                             Some (Errorf (''adapting config using '' @ adapterName
                                           @ '' adapter: '' @ Error err))), s')
                       | None \<Rightarrow> ((result, warnings, None), s')))))"

subsection \<open>The handler: handleAdapt\<close>

text \<open>
  The request as the handler reads it: the method and the header. \<open>Get\<close> is
  \<open>http.Header.Get\<close>, the first value of a key or the empty string; \<open>Add\<close> is
  \<open>http.Header.Add\<close>, which appends a value to those of the key.
\<close>

type_synonym Header = "string \<rightharpoonup> string list"

record Request =
  Method :: string
  Header :: Header

definition Get :: "Header \<Rightarrow> string \<Rightarrow> string" where
  "Get h key = (case h key of None \<Rightarrow> [] | Some [] \<Rightarrow> [] | Some (v # vs) \<Rightarrow> v)"

definition Add :: "Header \<Rightarrow> string \<Rightarrow> string \<Rightarrow> Header" where
  "Add h key v = h(key \<mapsto> (case h key of None \<Rightarrow> [] | Some vs \<Rightarrow> vs) @ [v])"

text \<open>The bytes of a slice; the nil slice has none.\<close>

definition bytes_of :: "char slice \<Rightarrow> string" where
  "bytes_of b = (case b of None \<Rightarrow> [] | Some l \<Rightarrow> l)"

text \<open>
  A \<open>bytes.Buffer\<close> that is only written to is its slice \<open>buf\<close>, which is nil until the
  buffer first grows (its read offset stays 0). \<open>Reset\<close> empties the slice and keeps a
  nil slice nil; \<open>Bytes\<close> returns the slice, so the nil slice for a buffer that never
  grew.
\<close>

type_synonym Buffer = "char slice"

definition Reset :: "Buffer \<Rightarrow> Buffer" where
  "Reset b = (case b of None \<Rightarrow> None | Some l \<Rightarrow> Some [])"

definition Bytes :: "Buffer \<Rightarrow> char slice" where
  "Bytes b = b"

text \<open>
  \<open>bufPool\<close> is a \<open>sync.Pool\<close> of buffers: the list of the buffers it holds. \<open>Get\<close>
  takes one out, or makes one with \<open>New\<close> (\<open>new(bytes.Buffer)\<close>, whose slice is nil) when
  it holds none; \<open>Put\<close> hands one back. Which buffer of several \<open>Get\<close> takes is not
  fixed by \<open>sync.Pool\<close>; here it is the one put last.
\<close>

definition Pool_Get :: "Buffer list \<Rightarrow> Buffer \<times> Buffer list" where
  "Pool_Get pool = (case pool of [] \<Rightarrow> (None, []) | b # bs \<Rightarrow> (b, bs))"

definition Pool_Put :: "Buffer list \<Rightarrow> Buffer \<Rightarrow> Buffer list" where
  "Pool_Put pool b = b # pool"

text \<open>
  The stream \<open>r.Body\<close>: the bytes it yields (\<open>stream\<close>), the error that ends it
  (\<open>streamErr\<close>, \<open>None\<close> for a clean end), and whether it has a method \<open>WriteTo\<close>, as \<open>http.NoBody\<close> has, the body of a
  request without one. \<open>io.Copy(buf, r.Body)\<close> calls \<open>WriteTo\<close> when the stream has it,
  which writes the bytes to the buffer and leaves a buffer alone to which it writes none;
  otherwise it calls the buffer's \<open>ReadFrom\<close>, which grows the buffer before it reads.
  The result is the buffer, the error, and the stream left read.
\<close>

record Reader =
  stream :: string
  streamErr :: "error option"
  hasWriteTo :: bool

definition io_Copy :: "Buffer \<Rightarrow> Reader \<Rightarrow> (Buffer \<times> error option) \<times> Reader" where
  "io_Copy buf rd =
     ((if hasWriteTo rd \<and> stream rd = [] then buf else Some (bytes_of buf @ stream rd),
       streamErr rd),
      rd\<lparr>stream := []\<rparr>)"

text \<open>
  What the handler acts on: the stream of the request body, the pool of buffers, the
  state of the adapters, the response writer (its header and the bytes handed to
  \<open>Write\<close>), and the error messages logged, each with the name of its logger.
\<close>

record 's World =
  reqBody :: Reader
  bufPool :: "Buffer list"
  adapters :: 's
  respHeader :: Header
  respBody :: string
  logs :: "(string \<times> string) list"

text \<open>
  The last three statements of the handler (lines 87 to 90): add the response content
  type, write the body, return nil. The result of \<open>Write\<close> is not looked at.
\<close>

definition respond :: "char slice \<Rightarrow> 's World \<Rightarrow> error option \<times> 's World" where
  "respond body w =
     (None, w\<lparr>respHeader := Add (respHeader w) ''Content-Type'' ''application/json'',
              respBody := respBody w @ bytes_of body\<rparr>)"

text \<open>
  \<open>handleAdapt\<close> (adapt.go, lines 47 to 91). \<open>parse\<close> and \<open>registry\<close> are as in
  \<open>adaptByContentType\<close>; \<open>marshal\<close> is \<open>json.Marshal\<close> on the warnings (its output and
  its error). The deferred \<open>bufPool.Put(buf)\<close> runs on every return after \<open>Get\<close>: it is
  the last step, on the result of the rest.
\<close>

definition handleAdapt ::
  "(string \<Rightarrow> string \<times> error option) \<Rightarrow> (string \<Rightarrow> 's Adapter option)
     \<Rightarrow> (Warning slice \<Rightarrow> char slice \<times> error option)
     \<Rightarrow> Request \<Rightarrow> 's World \<Rightarrow> error option \<times> 's World" where
  "handleAdapt parse registry marshal r w =
     (if Method r \<noteq> MethodPost
      then (Some (APIError StatusMethodNotAllowed (Errorf ''method not allowed'')), w)
      else
        let (buf, pool) = Pool_Get (bufPool w);
            w = w\<lparr>bufPool := pool\<rparr>;
            buf = Reset buf;
            ((buf, err), rd) = io_Copy buf (reqBody w);
            w = w\<lparr>reqBody := rd\<rparr>;
            (ret, w) =
              (case err of
                 Some err \<Rightarrow>
                   (Some (APIError StatusBadRequest
                            (Errorf (''reading request body: '' @ Error err))), w)
               | None \<Rightarrow>
                   let body = Bytes buf;
                       ctHeader = Get (Header r) ''Content-Type''
                   in
                   if ctHeader \<noteq> [] then
                     let ((result, warnings, err), s) =
                           adaptByContentType parse registry ctHeader body (adapters w);
                         w = w\<lparr>adapters := s\<rparr>
                     in
                     (case err of
                        Some err \<Rightarrow> (Some (APIError StatusBadRequest err), w)
                      | None \<Rightarrow>
                          let w = (if len warnings > 0 then
                                     (case snd (marshal warnings) of
                                        Some err \<Rightarrow>
                                          w\<lparr>logs := logs w @ [(''admin.api.load'', Error err)]\<rparr>
                                      | None \<Rightarrow> w)
                                   else w)
                          in respond result w)
                   else respond body w)
        in (ret, w\<lparr>bufPool := Pool_Put (bufPool w) buf\<rparr>))"

section \<open>Properties\<close>

subsection \<open>Facts about the string functions\<close>





lemma HasSuffix_json_slash:
  assumes "HasSuffix ct ''/json''" shows "CHR ''/'' \<in> set ct"
proof -
  from assms have "drop (length ct - length ''/json'') ct = ''/json''"
    unfolding HasSuffix_def by blast
  then have "CHR ''/'' \<in> set (drop (length ct - length ''/json'') ct)" by simp
  then show ?thesis by (rule in_set_dropD)
qed

lemma Index_single:
  "Index s [c] = (if c \<in> set s then int (length (takeWhile (\<lambda>x. x \<noteq> c) s)) else -1)"
  by (induction s) (auto simp: HasPrefix_def Let_def)

lemma Index_slash_absent: "CHR ''/'' \<notin> set ct \<Longrightarrow> Index ct ''/'' = -1"
  by (simp add: Index_single)

lemma Index_slash_first:
  assumes "CHR ''/'' \<notin> set ty"
  shows "Index (ty @ ''/'' @ name) ''/'' = int (length ty)"
proof -
  have "takeWhile (\<lambda>x. x \<noteq> CHR ''/'') (ty @ ''/'' @ name) = ty"
    using assms by (induction ty) auto
  then show ?thesis by (simp add: Index_single)
qed









subsection \<open>Facts about the parser\<close>





















subsection \<open>Facts about the dispatcher\<close>

text \<open>
  Past the parser and the test for JSON, the dispatcher's result is decided by the
  registry at the text after the first slash.
\<close>

lemma dispatch_by_name:
  assumes "contentType \<noteq> []"
    and "parse contentType = (ct, None)"
    and "\<not> HasSuffix ct ''/json''"
    and "Index ct ''/'' = int n"
    and "drop (Suc n) ct = name"
  shows "adaptByContentType parse registry contentType body s =
     (case registry name of
        None \<Rightarrow>
          ((None, None,
            Some (Errorf (''unrecognized config adapter '' @ [CHR 0x27] @ name @ [CHR 0x27]))), s)
      | Some cfgAdapter \<Rightarrow>
          (case cfgAdapter body None s of
             ((result, warnings, None), s') \<Rightarrow> ((result, warnings, None), s')
           | ((result, warnings, Some err), s') \<Rightarrow>
               ((None, None,
                 Some (Errorf (''adapting config using '' @ name @ '' adapter: ''
                               @ Error err))), s')))"
proof -
  have "nat (int n + 1) = Suc n" by simp
  then show ?thesis
    using assms
    by (simp add: adaptByContentType_def Let_def split: option.splits prod.splits)
qed

text \<open>
  An error of the dispatcher has an HTTP status exactly when it reports that the
  content type did not parse.
\<close>

lemma dispatcher_error_status:
  assumes "adaptByContentType parse registry contentType body s = ((out, ws, Some e), t)"
  shows "HTTPStatus e = (if snd (parse contentType) = None then None else Some 400)"
  using assms
  by (auto simp: adaptByContentType_def Let_def StatusBadRequest_def
      split: if_splits option.splits prod.splits)


subsection \<open>The claims\<close>

text \<open>
  In the theorems about \<open>adaptByContentType\<close> and \<open>handleAdapt\<close> the parser, the
  registry and the encoder are arbitrary. Where a theorem is applied to a content type,
  the parser is \<open>ParseMediaType\<close> with the case table \<open>\<lambda>r. r\<close>, the table with no
  entry (\<open>unicode.To\<close> returns a rune it does not find as it is); these content types
  are ASCII, for which no table is read.
\<close>

text \<open>
  Claim C1, as the code has it: for every body and every content type whose parsed media
  type ends in \<open>/json\<close> (the subtype is \<open>json\<close>), \<open>adaptByContentType\<close> returns the
  body unchanged, with no warnings and no error, and calls no adapter. This holds for
  every parser and every registry.
\<close>

theorem json_media_type_passes_through:
  assumes "parse contentType = (ct, None)" and "HasSuffix ct ''/json''"
  shows "adaptByContentType parse registry contentType body s = ((body, None, None), s)"
  using assms by (simp add: adaptByContentType_def)

text \<open>
  At \<open>application/json; charset=utf-8\<close>, with the parser of the standard library.
\<close>

theorem json_media_type_passes_through_witness:
  "ParseMediaType (\<lambda>r. r) ''application/json; charset=utf-8'' = (''application/json'', None)
   \<and> HasSuffix ''application/json'' ''/json''
   \<and> adaptByContentType (ParseMediaType (\<lambda>r. r)) (\<lambda>name. None)
        ''application/json; charset=utf-8'' (Some ''{}'') ()
       = ((Some ''{}'', None, None), ())"
proof -
  have p: "ParseMediaType (\<lambda>r. r) ''application/json; charset=utf-8''
             = (''application/json'', None)"
    by code_simp
  have h: "HasSuffix ''application/json'' ''/json''"
    by (simp add: HasSuffix_def)
  show ?thesis
    using p h
      json_media_type_passes_through [of "ParseMediaType (\<lambda>r. r)" _ _ "\<lambda>name. None"
        "Some ''{}''" "()", OF p h]
    by simp
qed

text \<open>
  Claim C1 as stated also covers a subtype that only ends in \<open>json\<close>. The media type
  \<open>application/vnd.api+json\<close> does not end in \<open>/json\<close>: the dispatcher takes
  \<open>vnd.api+json\<close> for the name of an adapter, and with no such adapter registered it
  fails. The single quote of the message is \<open>CHR 0x27\<close>.
\<close>

theorem json_suffix_subtype_counterexample:
  "ParseMediaType (\<lambda>r. r) ''application/vnd.api+json'' = (''application/vnd.api+json'', None)
   \<and> HasSuffix ''vnd.api+json'' ''json''
   \<and> adaptByContentType (ParseMediaType (\<lambda>r. r)) (\<lambda>name. None) ''application/vnd.api+json''
        (Some ''{}'') ()
      = ((None, None,
          Some (Errorf (''unrecognized config adapter '' @ [CHR 0x27] @ ''vnd.api+json''
                        @ [CHR 0x27]))), ())"
  by code_simp

text \<open>
  Claim C2, as the code has it: for every body, when the content type parses and the
  media type has no slash, \<open>adaptByContentType\<close> fails with the error
  \<open>malformed Content-Type\<close>, which has no HTTP status. Of the dispatcher's other errors,
  the one for a content type that does not parse has status 400, and no other has a
  status.
\<close>

theorem no_slash_is_malformed:
  assumes "contentType \<noteq> []"
    and "parse contentType = (ct, None)"
    and "CHR ''/'' \<notin> set ct"
  shows "adaptByContentType parse registry contentType body s
           = ((None, None, Some (Errorf ''malformed Content-Type'')), s)
         \<and> HTTPStatus (Errorf ''malformed Content-Type'') = None
         \<and> (\<forall>contentType' body' s' out ws e t.
               adaptByContentType parse registry contentType' body' s' = ((out, ws, Some e), t)
               \<longrightarrow> HTTPStatus e = (if snd (parse contentType') = None then None else Some 400))"
proof -
  have "\<not> HasSuffix ct ''/json''"
    using assms(3) HasSuffix_json_slash by blast
  moreover have "Index ct ''/'' = -1"
    using assms(3) by (rule Index_slash_absent)
  ultimately have "adaptByContentType parse registry contentType body s
      = ((None, None, Some (Errorf ''malformed Content-Type'')), s)"
    using assms(1,2) by (simp add: adaptByContentType_def)
  then show ?thesis
    using dispatcher_error_status[of parse registry] by auto
qed

text \<open>
  At the content type \<open>yaml\<close>, which parses and has no slash; and at \<open>a/b/c\<close>, which
  does not parse.
\<close>

theorem no_slash_is_malformed_witness:
  "ParseMediaType (\<lambda>r. r) ''yaml'' = (''yaml'', None)
   \<and> CHR ''/'' \<notin> set ''yaml''
   \<and> adaptByContentType (ParseMediaType (\<lambda>r. r)) (\<lambda>name. None) ''yaml'' (Some ''a: 1'') ()
       = ((None, None, Some (Errorf ''malformed Content-Type'')), ())
   \<and> HTTPStatus (Errorf ''malformed Content-Type'') = None
   \<and> adaptByContentType (ParseMediaType (\<lambda>r. r)) (\<lambda>name. None) ''a/b/c'' (Some ''a: 1'') ()
       = ((None, None,
           Some (APIError 400
                  (Errorf ''invalid Content-Type: mime: unexpected content after media subtype''))),
          ())
   \<and> HTTPStatus (APIError 400
         (Errorf ''invalid Content-Type: mime: unexpected content after media subtype''))
       = Some 400"
proof -
  have p: "ParseMediaType (\<lambda>r. r) ''yaml'' = (''yaml'', None)"
    by code_simp
  have q: "adaptByContentType (ParseMediaType (\<lambda>r. r)) (\<lambda>name. None) ''a/b/c''
             (Some ''a: 1'') ()
       = ((None, None,
           Some (APIError 400
                  (Errorf ''invalid Content-Type: mime: unexpected content after media subtype''))),
          ())"
    by code_simp
  have s: "snd (ParseMediaType (\<lambda>r. r) ''a/b/c'') \<noteq> None"
    by code_simp
  have "adaptByContentType (ParseMediaType (\<lambda>r. r)) (\<lambda>name. None) ''yaml'' (Some ''a: 1'') ()
          = ((None, None, Some (Errorf ''malformed Content-Type'')), ())
        \<and> HTTPStatus (Errorf ''malformed Content-Type'') = None
        \<and> (\<forall>contentType' body' (s'::unit) out ws e t.
              adaptByContentType (ParseMediaType (\<lambda>r. r)) (\<lambda>name. None) contentType' body' s'
                = ((out, ws, Some e), t)
              \<longrightarrow> HTTPStatus e
                  = (if snd (ParseMediaType (\<lambda>r. r) contentType') = None then None
                     else Some 400))"
    by (rule no_slash_is_malformed[of "''yaml''" "ParseMediaType (\<lambda>r. r)" "''yaml''", OF _ p])
      simp_all
  then show ?thesis
    using p q s by simp
qed

text \<open>
  Claim C2 as stated says that every other error path attaches status 400. The error for
  an adapter that is not registered does not: at \<open>application/toml\<close> with an empty
  registry it is an error with a message only.
\<close>

theorem sibling_error_without_status_counterexample:
  "adaptByContentType (ParseMediaType (\<lambda>r. r)) (\<lambda>name. None) ''application/toml''
     (Some ''a = 1'') ()
     = ((None, None,
         Some (Errorf (''unrecognized config adapter '' @ [CHR 0x27] @ ''toml'' @ [CHR 0x27]))),
        ())
   \<and> HTTPStatus (Errorf (''unrecognized config adapter '' @ [CHR 0x27] @ ''toml''
                          @ [CHR 0x27])) \<noteq> Some 400"
  by code_simp

text \<open>
  Claim C3: for every body and every content type whose media type is \<open>ty/adapterName\<close>
  and does not end in \<open>/json\<close>, if \<open>adapterName\<close> is registered and the adapter,
  called on the body with nil options, succeeds, then \<open>adaptByContentType\<close> returns the
  adapter's output and warnings as they are, with no error. The state \<open>s'\<close> is the one
  that this one call of the adapter leaves.
\<close>

theorem adapter_output_returned:
  assumes "contentType \<noteq> []"
    and "parse contentType = (ty @ ''/'' @ adapterName, None)"
    and "CHR ''/'' \<notin> set ty"
    and "\<not> HasSuffix (ty @ ''/'' @ adapterName) ''/json''"
    and "registry adapterName = Some cfgAdapter"
    and "cfgAdapter body None s = ((result, warnings, None), s')"
  shows "adaptByContentType parse registry contentType body s = ((result, warnings, None), s')"
proof -
  have "Index (ty @ ''/'' @ adapterName) ''/'' = int (length ty)"
    using assms(3) by (rule Index_slash_first)
  moreover have "drop (Suc (length ty)) (ty @ ''/'' @ adapterName) = adapterName"
    by simp
  ultimately show ?thesis
    using assms(1,2,4,5,6) by (simp add: dispatch_by_name)
qed

text \<open>
  At \<open>application/yaml\<close>, with an adapter that counts its calls in the state.
\<close>

theorem adapter_output_returned_witness:
  "ParseMediaType (\<lambda>r. r) ''application/yaml'' = (''application/yaml'', None)
   \<and> \<not> HasSuffix ''application/yaml'' ''/json''
   \<and> adaptByContentType (ParseMediaType (\<lambda>r. r))
        (\<lambda>name. if name = ''yaml''
           then Some (\<lambda>body options n.
                  ((Some (''json of '' @ bytes_of body),
                    Some [\<lparr>File = ''f'', Line = 1, Directive = ''d'', Message = ''m''\<rparr>], None),
                   Suc n))
           else None)
        ''application/yaml'' (Some ''a: 1'') (0::nat)
       = ((Some ''json of a: 1'',
           Some [\<lparr>File = ''f'', Line = 1, Directive = ''d'', Message = ''m''\<rparr>], None), 1)"
proof -
  let ?A = "\<lambda>body (options :: (string \<rightharpoonup> string) option) (n::nat).
              ((Some (''json of '' @ bytes_of body),
                Some [\<lparr>File = ''f'', Line = 1, Directive = ''d'', Message = ''m''\<rparr>],
                None :: error option), Suc n)"
  have p: "ParseMediaType (\<lambda>r. r) ''application/yaml''
             = (''application'' @ ''/'' @ ''yaml'', None)"
    by code_simp
  show ?thesis
    using p adapter_output_returned [of "''application/yaml''" "ParseMediaType (\<lambda>r. r)"
        "''application''" "''yaml''" "\<lambda>name. if name = ''yaml'' then Some ?A else None" ?A
        "Some ''a: 1''" 0 "Some ''json of a: 1''"
        "Some [\<lparr>File = ''f'', Line = 1, Directive = ''d'', Message = ''m''\<rparr>]" 1]
    by (simp add: HasSuffix_def bytes_of_def)
qed

text \<open>
  Claim C4: for every body and every content type whose media type is \<open>ty/adapterName\<close>
  and does not end in \<open>/json\<close>, if \<open>adapterName\<close> is not registered then
  \<open>adaptByContentType\<close> fails with the message \<open>unrecognized config adapter\<close> followed
  by the name in single quotes (\<open>CHR 0x27\<close>).
\<close>

theorem unregistered_adapter_rejected:
  assumes "contentType \<noteq> []"
    and "parse contentType = (ty @ ''/'' @ adapterName, None)"
    and "CHR ''/'' \<notin> set ty"
    and "\<not> HasSuffix (ty @ ''/'' @ adapterName) ''/json''"
    and "registry adapterName = None"
  shows "adaptByContentType parse registry contentType body s
           = ((None, None,
               Some (Errorf (''unrecognized config adapter '' @ [CHR 0x27] @ adapterName
                             @ [CHR 0x27]))), s)"
proof -
  have "Index (ty @ ''/'' @ adapterName) ''/'' = int (length ty)"
    using assms(3) by (rule Index_slash_first)
  moreover have "drop (Suc (length ty)) (ty @ ''/'' @ adapterName) = adapterName"
    by simp
  ultimately show ?thesis
    using assms(1,2,4,5) by (simp add: dispatch_by_name)
qed

text \<open>
  At \<open>application/toml\<close> with an empty registry.
\<close>

theorem unregistered_adapter_rejected_witness:
  "ParseMediaType (\<lambda>r. r) ''application/toml'' = (''application/toml'', None)
   \<and> \<not> HasSuffix ''application/toml'' ''/json''
   \<and> adaptByContentType (ParseMediaType (\<lambda>r. r)) (\<lambda>name. None) ''application/toml''
        (Some ''a = 1'') (0::nat)
       = ((None, None,
           Some (Errorf (''unrecognized config adapter '' @ [CHR 0x27] @ ''toml''
                         @ [CHR 0x27]))), 0)"
proof -
  have p: "ParseMediaType (\<lambda>r. r) ''application/toml''
             = (''application'' @ ''/'' @ ''toml'', None)"
    by code_simp
  show ?thesis
    using p unregistered_adapter_rejected [of "''application/toml''" "ParseMediaType (\<lambda>r. r)"
        "''application''" "''toml''" "\<lambda>name. None" "Some ''a = 1''" "0::nat"]
    by (simp add: HasSuffix_def)
qed

text \<open>
  Claim C5: for every body, with the empty string for content type,
  \<open>adaptByContentType\<close> returns the body unchanged, with no warnings and no error.
\<close>

theorem empty_content_type_passes_through:
  "adaptByContentType parse registry [] body s = ((body, None, None), s)"
  by (simp add: adaptByContentType_def)

text \<open>
  Claim C6: for every body, nil or not, and every content type whose media type is
  \<open>ty/adapterName\<close> and does not end in \<open>/json\<close>, if \<open>adapterName\<close> is registered and
  the adapter fails on the body, then \<open>adaptByContentType\<close> fails with the message
  \<open>adapting config using adapterName adapter:\<close> followed by the adapter's error; and
  \<open>handleAdapt\<close>, on a POST request with that content type whose body it reads into the
  buffer as this body, returns this error with HTTP status 400, having handed the buffer
  back to the pool.
\<close>

theorem adapter_failure_wrapped:
  assumes "contentType \<noteq> []"
    and "parse contentType = (ty @ ''/'' @ adapterName, None)"
    and "CHR ''/'' \<notin> set ty"
    and "\<not> HasSuffix (ty @ ''/'' @ adapterName) ''/json''"
    and "registry adapterName = Some cfgAdapter"
    and "cfgAdapter body None s = ((result, warnings, Some err), s')"
  shows "adaptByContentType parse registry contentType body s
           = ((None, None,
               Some (Errorf (''adapting config using '' @ adapterName @ '' adapter: ''
                             @ Error err))), s')
         \<and> (Method r = ''POST''
              \<and> Pool_Get (bufPool w) = (b0, pool)
              \<and> io_Copy (Reset b0) (reqBody w) = ((buf, None), rd)
              \<and> Bytes buf = body
              \<and> Get (Header r) ''Content-Type'' = contentType
              \<and> adapters w = s
            \<longrightarrow> handleAdapt parse registry marshal r w
                = (Some (APIError 400
                           (Errorf (''adapting config using '' @ adapterName @ '' adapter: ''
                                    @ Error err))),
                   w\<lparr>bufPool := Pool_Put pool buf, reqBody := rd, adapters := s'\<rparr>))"
proof -
  have "Index (ty @ ''/'' @ adapterName) ''/'' = int (length ty)"
    using assms(3) by (rule Index_slash_first)
  moreover have "drop (Suc (length ty)) (ty @ ''/'' @ adapterName) = adapterName"
    by simp
  ultimately have d: "adaptByContentType parse registry contentType body s
      = ((None, None,
          Some (Errorf (''adapting config using '' @ adapterName @ '' adapter: ''
                        @ Error err))), s')"
    using assms(1,2,4,5,6) by (simp add: dispatch_by_name)
  have "handleAdapt parse registry marshal r w
      = (Some (APIError 400
                 (Errorf (''adapting config using '' @ adapterName @ '' adapter: ''
                          @ Error err))),
         w\<lparr>bufPool := Pool_Put pool buf, reqBody := rd, adapters := s'\<rparr>)"
    if "Method r = ''POST''" and "Pool_Get (bufPool w) = (b0, pool)"
      and "io_Copy (Reset b0) (reqBody w) = ((buf, None), rd)" and "Bytes buf = body"
      and "Get (Header r) ''Content-Type'' = contentType" and "adapters w = s"
    using that d assms(1)
    by (simp add: handleAdapt_def MethodPost_def StatusBadRequest_def)
  with d show ?thesis by blast
qed

text \<open>
  At \<open>text/caddyfile\<close> on a request without body (\<open>http.NoBody\<close>) and a pool that
  holds no buffer: the buffer is new and stays nil, the adapter is called on the nil
  slice and says so in its error.
\<close>

theorem adapter_failure_wrapped_witness:
  "adaptByContentType (ParseMediaType (\<lambda>r. r))
     (\<lambda>name. if name = ''caddyfile''
        then Some (\<lambda>body options n.
               ((None, None,
                 Some (Errorf (case body of None \<Rightarrow> ''nil input'' | Some b \<Rightarrow> ''bad input''))),
                Suc n))
        else None)
     ''text/caddyfile'' None (0::nat)
    = ((None, None, Some (Errorf ''adapting config using caddyfile adapter: nil input'')), 1)
   \<and> Pool_Get [] = (None, [])
   \<and> io_Copy (Reset None) \<lparr>stream = [], streamErr = None, hasWriteTo = True\<rparr>
       = ((None, None), \<lparr>stream = [], streamErr = None, hasWriteTo = True\<rparr>)
   \<and> handleAdapt (ParseMediaType (\<lambda>r. r))
     (\<lambda>name. if name = ''caddyfile''
        then Some (\<lambda>body options n.
               ((None, None,
                 Some (Errorf (case body of None \<Rightarrow> ''nil input'' | Some b \<Rightarrow> ''bad input''))),
                Suc n))
        else None)
     (\<lambda>ws. (None, None))
     \<lparr>Method = ''POST'', Header = [''Content-Type'' \<mapsto> [''text/caddyfile'']]\<rparr>
     \<lparr>reqBody = \<lparr>stream = [], streamErr = None, hasWriteTo = True\<rparr>,
      bufPool = [], adapters = (0::nat), respHeader = Map.empty, respBody = [], logs = []\<rparr>
    = (Some (APIError 400
               (Errorf ''adapting config using caddyfile adapter: nil input'')),
       \<lparr>reqBody = \<lparr>stream = [], streamErr = None, hasWriteTo = True\<rparr>,
        bufPool = [None], adapters = 1, respHeader = Map.empty, respBody = [], logs = []\<rparr>)"
proof -
  let ?A = "\<lambda>(body :: char slice) (options :: (string \<rightharpoonup> string) option) (n::nat).
              ((None :: char slice, None :: Warning slice,
                Some (Errorf (case body of None \<Rightarrow> ''nil input'' | Some b \<Rightarrow> ''bad input''))),
               Suc n)"
  let ?rd = "\<lparr>stream = [], streamErr = None, hasWriteTo = True\<rparr>"
  have p: "ParseMediaType (\<lambda>r. r) ''text/caddyfile'' = (''text'' @ ''/'' @ ''caddyfile'', None)"
    by code_simp
  have g: "Pool_Get [] = (None :: Buffer, [])"
    by (simp add: Pool_Get_def)
  have c: "io_Copy (Reset None) ?rd = ((None, None), ?rd)"
    by (simp add: io_Copy_def Reset_def)
  show ?thesis
    using p g c adapter_failure_wrapped [of "''text/caddyfile''" "ParseMediaType (\<lambda>r. r)"
        "''text''" "''caddyfile''" "\<lambda>name. if name = ''caddyfile'' then Some ?A else None" ?A
        None 0 None None "Errorf ''nil input''" 1
        "\<lparr>Method = ''POST'', Header = [''Content-Type'' \<mapsto> [''text/caddyfile'']]\<rparr>"
        "\<lparr>reqBody = ?rd, bufPool = [], adapters = (0::nat), respHeader = Map.empty,
          respBody = [], logs = []\<rparr>"
        None "[]" None ?rd "\<lambda>ws. (None, None)"]
    by (simp add: HasSuffix_def Get_def Bytes_def Pool_Put_def)
qed

text \<open>
  Claim C7: for every request whose method is not POST, \<open>handleAdapt\<close> fails with
  \<open>method not allowed\<close> and HTTP status 405, and leaves everything as it was: the body
  is not read, no buffer is taken from the pool, no adapter is called, nothing is
  written to the response.
\<close>

theorem method_not_allowed:
  assumes "Method r \<noteq> ''POST''"
  shows "handleAdapt parse registry marshal r w
           = (Some (APIError 405 (Errorf ''method not allowed'')), w)"
  using assms by (simp add: handleAdapt_def MethodPost_def StatusMethodNotAllowed_def)

text \<open>
  At a GET request.
\<close>

theorem method_not_allowed_witness:
  "Method \<lparr>Method = ''GET'', Header = [''Content-Type'' \<mapsto> [''application/yaml'']]\<rparr> \<noteq> ''POST''
   \<and> handleAdapt (ParseMediaType (\<lambda>r. r)) (\<lambda>name. None) (\<lambda>ws. (None, None))
        \<lparr>Method = ''GET'', Header = [''Content-Type'' \<mapsto> [''application/yaml'']]\<rparr>
        \<lparr>reqBody = \<lparr>stream = ''a: 1'', streamErr = None, hasWriteTo = False\<rparr>,
         bufPool = [], adapters = (0::nat), respHeader = Map.empty, respBody = [], logs = []\<rparr>
       = (Some (APIError 405 (Errorf ''method not allowed'')),
          \<lparr>reqBody = \<lparr>stream = ''a: 1'', streamErr = None, hasWriteTo = False\<rparr>,
           bufPool = [], adapters = 0, respHeader = Map.empty, respBody = [], logs = []\<rparr>)"
  using method_not_allowed [of
      "\<lparr>Method = ''GET'', Header = [''Content-Type'' \<mapsto> [''application/yaml'']]\<rparr>"
      "ParseMediaType (\<lambda>r. r)" "\<lambda>name. None" "\<lambda>ws. (None, None)"
      "\<lparr>reqBody = \<lparr>stream = ''a: 1'', streamErr = None, hasWriteTo = False\<rparr>,
        bufPool = [], adapters = (0::nat), respHeader = Map.empty, respBody = [], logs = []\<rparr>"]
  by simp

text \<open>
  Claim C8: for every POST request on which the dispatcher, called on the bytes of the
  buffer (a nil slice or not), succeeds with warnings, if \<open>json.Marshal\<close> fails on the
  warnings then \<open>handleAdapt\<close> still adds the content type \<open>application/json\<close> to the
  response, writes the result and returns nil; the error of \<open>json.Marshal\<close> is logged
  and nothing else comes of it.
\<close>

theorem marshal_failure_only_logged:
  assumes "Method r = ''POST''"
    and "Pool_Get (bufPool w) = (b0, pool)"
    and "io_Copy (Reset b0) (reqBody w) = ((buf, None), rd)"
    and "Get (Header r) ''Content-Type'' = contentType"
    and "contentType \<noteq> []"
    and "adaptByContentType parse registry contentType (Bytes buf) (adapters w)
           = ((result, warnings, None), s')"
    and "len warnings > 0"
    and "marshal warnings = (out, Some err)"
  shows "handleAdapt parse registry marshal r w
           = (None,
              w\<lparr>bufPool := Pool_Put pool buf,
                reqBody := rd,
                adapters := s',
                logs := logs w @ [(''admin.api.load'', Error err)],
                respHeader := Add (respHeader w) ''Content-Type'' ''application/json'',
                respBody := respBody w @ bytes_of result\<rparr>)"
  using assms
  by (simp add: handleAdapt_def MethodPost_def respond_def)

text \<open>
  At \<open>application/yaml\<close>, with a buffer of the pool that was used before, an adapter
  that gives one warning and an encoder that fails.
\<close>

theorem marshal_failure_only_logged_witness:
  "Pool_Get [Some ''old''] = (Some ''old'', [])
   \<and> io_Copy (Reset (Some ''old'')) \<lparr>stream = ''a: 1'', streamErr = None, hasWriteTo = False\<rparr>
       = ((Some ''a: 1'', None), \<lparr>stream = [], streamErr = None, hasWriteTo = False\<rparr>)
   \<and> adaptByContentType (ParseMediaType (\<lambda>r. r))
     (\<lambda>name. if name = ''yaml''
        then Some (\<lambda>body options n.
               ((Some ''{}'',
                 Some [\<lparr>File = ''f'', Line = 1, Directive = ''d'', Message = ''m''\<rparr>],
                 None), Suc n))
        else None)
     ''application/yaml'' (Some ''a: 1'') (0::nat)
    = ((Some ''{}'', Some [\<lparr>File = ''f'', Line = 1, Directive = ''d'', Message = ''m''\<rparr>],
        None), 1)
   \<and> len (Some [\<lparr>File = ''f'', Line = 1, Directive = ''d'', Message = ''m''\<rparr>]) > 0
   \<and> handleAdapt (ParseMediaType (\<lambda>r. r))
     (\<lambda>name. if name = ''yaml''
        then Some (\<lambda>body options n.
               ((Some ''{}'',
                 Some [\<lparr>File = ''f'', Line = 1, Directive = ''d'', Message = ''m''\<rparr>],
                 None), Suc n))
        else None)
     (\<lambda>ws. (None, Some (Errorf ''json: unsupported value'')))
     \<lparr>Method = ''POST'', Header = [''Content-Type'' \<mapsto> [''application/yaml'']]\<rparr>
     \<lparr>reqBody = \<lparr>stream = ''a: 1'', streamErr = None, hasWriteTo = False\<rparr>,
      bufPool = [Some ''old''], adapters = (0::nat), respHeader = Map.empty,
      respBody = [], logs = []\<rparr>
    = (None,
       \<lparr>reqBody = \<lparr>stream = [], streamErr = None, hasWriteTo = False\<rparr>,
        bufPool = [Some ''a: 1''], adapters = 1,
        respHeader = [''Content-Type'' \<mapsto> [''application/json'']],
        respBody = ''{}'', logs = [(''admin.api.load'', ''json: unsupported value'')]\<rparr>)"
proof -
  let ?W = "Some [\<lparr>File = ''f'', Line = 1, Directive = ''d'', Message = ''m''\<rparr>]"
  let ?reg = "\<lambda>name. if name = ''yaml''
        then Some (\<lambda>(body :: char slice) (options :: (string \<rightharpoonup> string) option) (n::nat).
               ((Some ''{}'', ?W, None :: error option), Suc n))
        else None"
  let ?rd = "\<lparr>stream = ''a: 1'', streamErr = None, hasWriteTo = False\<rparr>"
  have d: "adaptByContentType (ParseMediaType (\<lambda>r. r)) ?reg ''application/yaml''
             (Some ''a: 1'') 0
      = ((Some ''{}'', ?W, None), 1)"
    by code_simp
  have g: "Pool_Get [Some ''old''] = (Some ''old'', [])"
    by (simp add: Pool_Get_def)
  have c: "io_Copy (Reset (Some ''old'')) ?rd
      = ((Some ''a: 1'', None), \<lparr>stream = [], streamErr = None, hasWriteTo = False\<rparr>)"
    by (simp add: io_Copy_def Reset_def bytes_of_def)
  show ?thesis
    using d g c marshal_failure_only_logged [of
        "\<lparr>Method = ''POST'', Header = [''Content-Type'' \<mapsto> [''application/yaml'']]\<rparr>"
        "\<lparr>reqBody = ?rd, bufPool = [Some ''old''], adapters = (0::nat),
          respHeader = Map.empty, respBody = [], logs = []\<rparr>"
        "Some ''old''" "[]" "Some ''a: 1''"
        "\<lparr>stream = [], streamErr = None, hasWriteTo = False\<rparr>"
        "''application/yaml''" "ParseMediaType (\<lambda>r. r)" ?reg "Some ''{}''" ?W 1
        "\<lambda>ws. (None, Some (Errorf ''json: unsupported value''))" None
        "Errorf ''json: unsupported value''"]
    by (simp add: Get_def len_def Add_def bytes_of_def Bytes_def Pool_Put_def)
qed

text \<open>
  Claim C9: for every content type and body, whenever \<open>adaptByContentType\<close> returns an
  error, the output and the warnings it returns are both nil.
\<close>

theorem error_has_no_partial_result:
  assumes "adaptByContentType parse registry contentType body s = ((out, ws, Some e), s')"
  shows "out = None \<and> ws = None"
  using assms
  by (auto simp: adaptByContentType_def Let_def
      split: if_splits option.splits prod.splits)

text \<open>
  At an adapter that returns an output and a warning together with its error.
\<close>

theorem error_has_no_partial_result_witness:
  "adaptByContentType (ParseMediaType (\<lambda>r. r))
     (\<lambda>name. if name = ''caddyfile''
        then Some (\<lambda>body options n.
               ((Some ''partial'',
                 Some [\<lparr>File = ''f'', Line = 1, Directive = ''d'', Message = ''m''\<rparr>],
                 Some (Errorf ''boom'')), Suc n))
        else None)
     ''text/caddyfile'' (Some ''x'') (0::nat)
    = ((None, None, Some (Errorf ''adapting config using caddyfile adapter: boom'')), 1)"
proof -
  let ?reg = "\<lambda>name. if name = ''caddyfile''
        then Some (\<lambda>(body :: char slice) (options :: (string \<rightharpoonup> string) option) (n::nat).
               ((Some ''partial'',
                 Some [\<lparr>File = ''f'', Line = 1, Directive = ''d'', Message = ''m''\<rparr>],
                 Some (Errorf ''boom'')), Suc n))
        else None"
  let ?r = "adaptByContentType (ParseMediaType (\<lambda>r. r)) ?reg ''text/caddyfile'' (Some ''x'') 0"
  have r: "?r = ((fst (fst ?r), fst (snd (fst ?r)),
                  Some (Errorf ''adapting config using caddyfile adapter: boom'')), 1)"
    by code_simp
  show ?thesis
    using r error_has_no_partial_result[OF r] by simp
qed



end
